theory Spec2Isabelle
  imports Main "HOL-Library.Word"
begin

section \<open>The Plasma client binding (cpp/src/plasma/extension.cc)\<close>

text \<open>
  The file is the Python binding of the Plasma object-store client. Every function parses
  its arguments, performs at most one call on the \<open>PlasmaClient\<close> and converts the answer
  to a Python value. The embedding starts after \<open>PyArg_ParseTuple\<close>: the arguments are the
  parsed C values (\<open>Py_ssize_t\<close> and \<open>int\<close> as \<open>int\<close>; the only arithmetic done
  on them is a comparison and a count bounded by the length of a list, which stays below
  \<open>2^31\<close>, so no overflow arises),
  and the items of an id list are object identifiers, on which \<open>PyStringToUniqueID\<close>
  succeeds and \<open>PyBytes_FromStringAndSize\<close> gives the same bytes back.

  A function's outcome is a pair: the calls it issued to the store, in order, and either
  a failure or the Python value it returns.
\<close>

subsection \<open>Values\<close>

type_synonym byte = "8 word"

text \<open>An address in the memory shared with the store.\<close>
type_synonym addr = nat

text \<open>
  \<open>arrow::Status\<close>, by the predicates the binding asks of it: \<open>ok()\<close>,
  \<open>IsPlasmaObjectExists()\<close>, \<open>IsPlasmaStoreFull()\<close>. \<open>OtherFailure\<close> is any other
  status that is not ok.
\<close>
datatype Status = OK | PlasmaObjectExists | PlasmaStoreFull | OtherFailure

definition ok :: "Status \<Rightarrow> bool" where
  "ok s = (s = OK)"

definition IsPlasmaObjectExists :: "Status \<Rightarrow> bool" where
  "IsPlasmaObjectExists s = (s = PlasmaObjectExists)"

definition IsPlasmaStoreFull :: "Status \<Rightarrow> bool" where
  "IsPlasmaStoreFull s = (s = PlasmaStoreFull)"

text \<open>The exception objects the binding raises with \<open>PyErr_SetString\<close>.\<close>
datatype py_exception =
    PyExc_RuntimeError
  | PyExc_TypeError
  | PlasmaObjectExistsError
  | PlasmaOutOfMemoryError

text \<open>
  A call ends without a value either by a Python exception (the function returns
  \<open>NULL\<close> with the error set) or by a failed \<open>ARROW_CHECK\<close>, which ends the process.
\<close>
datatype failure = PyErr py_exception string | CheckFailed

text \<open>The query scope and the observed status of an object request.\<close>
datatype query_type = PLASMA_QUERY_LOCAL | PLASMA_QUERY_ANYWHERE

text \<open>
  The binding names three statuses; the field can hold other values, which line 287
  checks against. \<open>ObjectStatus_Other\<close> is any of them (also the value of a fresh request).
\<close>
datatype ObjectStatus =
    ObjectStatus_Local
  | ObjectStatus_Remote
  | ObjectStatus_Nonexistent
  | ObjectStatus_Other

record 'oid ObjectRequest =
  object_id :: 'oid
  type :: query_type
  status :: ObjectStatus

record ObjectBuffer =
  data_size :: int
  data :: addr
  metadata_size :: int
  metadata :: addr

text \<open>The root table of a notification frame, with the fields the binding reads.\<close>
record ObjectInfo =
  info_object_id :: "byte list"
  info_data_size :: int
  info_metadata_size :: int
  info_is_deletion :: bool

text \<open>Python objects passed as the \<open>metadata\<close> argument of \<open>create\<close>.\<close>
datatype PyObject = Py_None | PyLong int | PyBytes "byte list" | PyByteArray "byte list"

fun PyByteArray_Check :: "PyObject \<Rightarrow> bool" where
  "PyByteArray_Check (PyByteArray bs) = True"
| "PyByteArray_Check _ = False"

fun PyByteArray_AsString :: "PyObject \<Rightarrow> byte list" where
  "PyByteArray_AsString (PyByteArray bs) = bs"
| "PyByteArray_AsString _ = []"

fun PyByteArray_Size :: "PyObject \<Rightarrow> int" where
  "PyByteArray_Size (PyByteArray bs) = int (length bs)"
| "PyByteArray_Size _ = - 1"

text \<open>
  A memory view over shared memory (\<open>PyMemoryView_FromMemory\<close>; under Python 2 the
  binding builds a buffer object with the same address, size and access).
\<close>
datatype buffer_access = PyBUF_READ | PyBUF_WRITE

record PyMemoryView =
  view_mem :: addr
  view_size :: int
  view_access :: buffer_access

subsection \<open>The client\<close>

text \<open>The calls a binding function can issue to the store through the client.\<close>
datatype 'oid store_call =
    Create_call 'oid int "byte list" int
  | Hash_call 'oid
  | Get_call "'oid list" int
  | Fetch_call int "'oid list"
  | Wait_call "'oid ObjectRequest list" int int
  | Transfer_call string int 'oid

text \<open>
  \<open>PlasmaClient\<close> (plasma/client.h) is defined outside extension.cc, so what the
  client answers is a parameter: one function per method the binding calls, from the
  method's arguments to what it writes into its output arguments and returns. An output
  array is given by index, as the caller allocated it with its own length.
  \<^item> \<open>Create\<close>: the status and the address of the new buffer.
  \<^item> \<open>plasma_compute_object_hash\<close>: success, and the digest array after the call.
  \<^item> \<open>Get\<close>: the status and the object buffers after the call.
  \<^item> \<open>Fetch\<close> and \<open>Transfer\<close>: the status.
  \<^item> \<open>Wait\<close>: the status, the status field of each request after the call, and
    \<open>num_return_objects\<close>. The id and the type of a request stay as the binding set
    them.
\<close>
record 'oid PlasmaClient =
  get_manager_fd :: int
  Create :: "'oid \<Rightarrow> int \<Rightarrow> byte list \<Rightarrow> int \<Rightarrow> Status \<times> addr"
  plasma_compute_object_hash :: "'oid \<Rightarrow> bool \<times> (nat \<Rightarrow> byte)"
  Get :: "'oid list \<Rightarrow> int \<Rightarrow> Status \<times> (nat \<Rightarrow> ObjectBuffer)"
  Fetch :: "int \<Rightarrow> 'oid list \<Rightarrow> Status"
  Wait :: "'oid ObjectRequest list \<Rightarrow> int \<Rightarrow> int \<Rightarrow> Status \<times> (nat \<Rightarrow> ObjectStatus) \<times> int"
  Transfer :: "string \<Rightarrow> int \<Rightarrow> 'oid \<Rightarrow> Status"

type_synonym ('oid, 'a) outcome = "'oid store_call list \<times> (failure + 'a)"

subsection \<open>create\<close>

definition PyPlasma_create ::
  "'oid PlasmaClient \<Rightarrow> 'oid \<Rightarrow> int \<Rightarrow> PyObject \<Rightarrow> ('oid, PyMemoryView) outcome" where
  "PyPlasma_create client oid sz mdata =
     (if \<not> PyByteArray_Check mdata then
        ([], Inl (PyErr PyExc_TypeError ''metadata must be a bytearray''))
      else
        let calls = [Create_call oid sz (PyByteArray_AsString mdata) (PyByteArray_Size mdata)];
            (s, dat) = Create client oid sz (PyByteArray_AsString mdata) (PyByteArray_Size mdata)
        in if IsPlasmaObjectExists s then
             (calls, Inl (PyErr PlasmaObjectExistsError
                ''An object with this ID already exists in the plasma store.''))
           else if IsPlasmaStoreFull s then
             (calls, Inl (PyErr PlasmaOutOfMemoryError
                ''The plasma store ran out of memory and could not create this object.''))
           else if \<not> ok s then (calls, Inl CheckFailed)
           else (calls, Inr \<lparr>view_mem = dat, view_size = sz, view_access = PyBUF_WRITE\<rparr>))"

subsection \<open>hash\<close>

text \<open>
  \<open>kDigestSize\<close> (plasma/common.h) is defined outside extension.cc; it is a parameter.
  The digest is a local array of \<open>kDigestSize\<close> bytes, all of them copied into the result.
\<close>
definition PyPlasma_hash ::
  "nat \<Rightarrow> 'oid PlasmaClient \<Rightarrow> 'oid \<Rightarrow> ('oid, byte list option) outcome" where
  "PyPlasma_hash kDigestSize client oid =
     (let (success, digest) = plasma_compute_object_hash client oid
      in ([Hash_call oid],
          if success then Inr (Some (map digest [0..<kDigestSize])) else Inr None))"

subsection \<open>get\<close>

text \<open>
  The body of the second loop of \<open>PyPlasma_get\<close>: the entry built from one object buffer,
  a pair of read-only views or Python's \<open>None\<close>.
\<close>
definition get_entry :: "ObjectBuffer \<Rightarrow> (PyMemoryView \<times> PyMemoryView) option" where
  "get_entry b =
     (if data_size b \<noteq> - 1 then
        Some (\<lparr>view_mem = data b, view_size = data_size b, view_access = PyBUF_READ\<rparr>,
              \<lparr>view_mem = metadata b, view_size = metadata_size b, view_access = PyBUF_READ\<rparr>)
      else None)"

text \<open>
  The list \<open>returns\<close> has \<open>num_object_ids\<close> slots and the loop sets slot \<open>i\<close> from
  \<open>object_buffers[i]\<close> for every \<open>i\<close> below \<open>num_object_ids\<close>. Setting a slot
  of the new list within its length succeeds, so the checks of lines 178 and 183 pass.
\<close>
definition PyPlasma_get ::
  "'oid PlasmaClient \<Rightarrow> 'oid list \<Rightarrow> int \<Rightarrow>
     ('oid, (PyMemoryView \<times> PyMemoryView) option list) outcome" where
  "PyPlasma_get client object_id_list timeout_ms =
     (let num_object_ids = length object_id_list;
          calls = [Get_call object_id_list timeout_ms];
          (s, object_buffers) = Get client object_id_list timeout_ms
      in if \<not> ok s then (calls, Inl CheckFailed)
         else (calls, Inr (map (\<lambda>i. get_entry (object_buffers i)) [0..<num_object_ids])))"

subsection \<open>fetch and transfer\<close>

definition PyPlasma_fetch :: "'oid PlasmaClient \<Rightarrow> 'oid list \<Rightarrow> ('oid, unit) outcome" where
  "PyPlasma_fetch client object_id_list =
     (if get_manager_fd client = - 1 then
        ([], Inl (PyErr PyExc_RuntimeError ''Not connected to the plasma manager''))
      else
        let n = int (length object_id_list);
            calls = [Fetch_call n object_id_list]
        in if \<not> ok (Fetch client n object_id_list) then (calls, Inl CheckFailed)
           else (calls, Inr ()))"

definition PyPlasma_transfer ::
  "'oid PlasmaClient \<Rightarrow> 'oid \<Rightarrow> string \<Rightarrow> int \<Rightarrow> ('oid, unit) outcome" where
  "PyPlasma_transfer client oid addr port =
     (if get_manager_fd client = - 1 then
        ([], Inl (PyErr PyExc_RuntimeError ''Not connected to the plasma manager''))
      else
        let calls = [Transfer_call addr port oid]
        in if \<not> ok (Transfer client addr port oid) then (calls, Inl CheckFailed)
           else (calls, Inr ()))"

subsection \<open>wait\<close>

text \<open>The local \<open>threshold\<close> of \<open>PyPlasma_wait\<close>, \<open>1 << 30\<close>.\<close>
definition threshold :: int where
  "threshold = 2 ^ 30"

text \<open>The first loop: one request per id, in order, each asking anywhere.\<close>
fun wait_requests :: "'oid list \<Rightarrow> 'oid ObjectRequest list" where
  "wait_requests [] = []"
| "wait_requests (oid # oids) =
     \<lparr>object_id = oid, type = PLASMA_QUERY_ANYWHERE, status = ObjectStatus_Other\<rparr>
       # wait_requests oids"

text \<open>The request array after \<open>client->Wait\<close> has written the observed statuses.\<close>
definition observed ::
  "'oid ObjectRequest list \<Rightarrow> (nat \<Rightarrow> ObjectStatus) \<Rightarrow> 'oid ObjectRequest list" where
  "observed object_requests statuses =
     map (\<lambda>(i, r). r\<lparr>status := statuses i\<rparr>) (enumerate 0 object_requests)"

text \<open>
  \<open>PyList_New(num_to_return)\<close>: a list of that many slots, each still \<open>NULL\<close>
  (\<open>None\<close> here). For a negative size the call fails; every later path of
  \<open>PyPlasma_wait\<close> then ends the process, as it does here with no slot at all.
\<close>
definition PyList_New :: "int \<Rightarrow> 'a option list" where
  "PyList_New k = replicate (nat k) None"

text \<open>
  The second loop, from position \<open>i\<close> on (the requests left to visit): it stops when
  \<open>num_returned\<close> reaches \<open>num_to_return\<close>, stores a ready id in slot \<open>num_returned\<close>
  and discards it from the set, and checks that any other status is \<open>Nonexistent\<close>.
\<close>
fun wait_collect ::
  "'oid ObjectRequest list \<Rightarrow> int \<Rightarrow> int \<Rightarrow> 'oid option list \<Rightarrow> 'oid set \<Rightarrow>
     failure + (int \<times> 'oid option list \<times> 'oid set)" where
  "wait_collect [] num_to_return num_returned ready_ids waiting_ids =
     Inr (num_returned, ready_ids, waiting_ids)"
| "wait_collect (r # rs) num_to_return num_returned ready_ids waiting_ids =
     (if num_returned = num_to_return then Inr (num_returned, ready_ids, waiting_ids)
      else if status r = ObjectStatus_Local \<or> status r = ObjectStatus_Remote then
        wait_collect rs num_to_return (num_returned + 1)
          (ready_ids[nat num_returned := Some (object_id r)])
          (waiting_ids - {object_id r})
      else if status r = ObjectStatus_Nonexistent then
        wait_collect rs num_to_return num_returned ready_ids waiting_ids
      else Inl CheckFailed)"

definition PyPlasma_wait ::
  "'oid PlasmaClient \<Rightarrow> 'oid list \<Rightarrow> int \<Rightarrow> int \<Rightarrow>
     ('oid, 'oid option list \<times> 'oid set) outcome" where
  "PyPlasma_wait client object_id_list timeout num_returns =
     (let n = int (length object_id_list) in
      if get_manager_fd client = - 1 then
        ([], Inl (PyErr PyExc_RuntimeError ''Not connected to the plasma manager''))
      else if num_returns < 0 then
        ([], Inl (PyErr PyExc_RuntimeError
           ''The argument num_returns cannot be less than zero.''))
      else if num_returns > n then
        ([], Inl (PyErr PyExc_RuntimeError
           ''The argument num_returns cannot be greater than len(object_ids)''))
      else if timeout > threshold then
        ([], Inl (PyErr PyExc_RuntimeError
           ''The argument timeout cannot be greater than 2 ** 30.''))
      else
        let object_requests = wait_requests object_id_list;
            calls = [Wait_call object_requests num_returns timeout];
            (s, statuses, num_return_objects) =
               Wait client object_requests num_returns timeout
        in if \<not> ok s then (calls, Inl CheckFailed)
           else
             let num_to_return = min num_return_objects num_returns
             in (calls,
                 case wait_collect (observed object_requests statuses) num_to_return 0
                        (PyList_New num_to_return) (set object_id_list) of
                   Inl e \<Rightarrow> Inl e
                 | Inr (num_returned, ready_ids, waiting_ids) \<Rightarrow>
                     if num_returned = num_to_return then Inr (ready_ids, waiting_ids)
                     else Inl CheckFailed))"

subsection \<open>receive_notification\<close>

text \<open>
  \<open>read_message_async\<close> (plasma/io.h) is defined outside extension.cc; it is a
  parameter: what reading the socket gives, \<open>None\<close> for \<open>NULL\<close>, or the frame, given by
  its root table.
\<close>
definition PyPlasma_receive_notification ::
  "(int \<Rightarrow> ObjectInfo option) \<Rightarrow> int \<Rightarrow> failure + (byte list \<times> int \<times> int)" where
  "PyPlasma_receive_notification read_message_async plasma_sock =
     (case read_message_async plasma_sock of
        None \<Rightarrow>
          Inl (PyErr PyExc_RuntimeError
            ''Failed to read object notification from Plasma socket'')
      | Some object_info \<Rightarrow>
          if info_is_deletion object_info then Inr (info_object_id object_info, - 1, - 1)
          else Inr (info_object_id object_info, info_data_size object_info,
                    info_metadata_size object_info))"

section \<open>What the claims speak of\<close>

text \<open>
  The ids whose observed status is \<open>Local\<close> or \<open>Remote\<close>, in input order: the
  identifiers a wait may report as ready.
\<close>
definition ready_in_order :: "'oid list \<Rightarrow> (nat \<Rightarrow> ObjectStatus) \<Rightarrow> 'oid list" where
  "ready_in_order ids statuses =
     map snd (filter (\<lambda>(i, oid). statuses i = ObjectStatus_Local \<or> statuses i = ObjectStatus_Remote)
       (enumerate 0 ids))"

text \<open>
  Modelled from the spec: \<open>PlasmaClient::Wait\<close> (plasma/client.cc) is defined outside
  extension.cc. By sections 3 and 4.2 of the specification a wait observes for every
  request one of the statuses \<open>Local\<close>, \<open>Remote\<close>, \<open>Nonexistent\<close>, and the count it
  reports is the number of ready ids (those observed \<open>Local\<close> or \<open>Remote\<close>). The
  request succeeds.
\<close>
definition Wait_contract :: "'oid PlasmaClient \<Rightarrow> 'oid list \<Rightarrow> int \<Rightarrow> int \<Rightarrow> bool" where
  "Wait_contract client ids num_returns timeout =
     (case Wait client (wait_requests ids) num_returns timeout of
        (s, statuses, num_return_objects) \<Rightarrow>
          ok s \<and>
          (\<forall>i \<in> set [0..<length ids]. statuses i \<noteq> ObjectStatus_Other) \<and>
          num_return_objects = int (length (ready_in_order ids statuses)))"

text \<open>The error of a client that has no connection to a manager.\<close>
definition not_connected :: failure where
  "not_connected = PyErr PyExc_RuntimeError ''Not connected to the plasma manager''"

text \<open>The three errors \<open>PyPlasma_wait\<close> raises about its arguments (lines 241 to 256).\<close>
definition wait_usage_error :: "failure + 'a \<Rightarrow> bool" where
  "wait_usage_error r =
     (r = Inl (PyErr PyExc_RuntimeError ''The argument num_returns cannot be less than zero.'') \<or>
      r = Inl (PyErr PyExc_RuntimeError
                 ''The argument num_returns cannot be greater than len(object_ids)'') \<or>
      r = Inl (PyErr PyExc_RuntimeError ''The argument timeout cannot be greater than 2 ** 30.''))"

text \<open>The ready ids of a request array: what the second loop of \<open>PyPlasma_wait\<close> selects from.\<close>
definition ready_of :: "'oid ObjectRequest list \<Rightarrow> 'oid list" where
  "ready_of rs = map object_id (filter (\<lambda>r. status r = ObjectStatus_Local \<or> status r = ObjectStatus_Remote) rs)"

subsection \<open>Concrete clients\<close>

text \<open>
  A client with ids that are strings: its manager descriptor, the status every store
  request returns, the statuses a wait observes by position (a \<open>Local\<close> position is also
  an object that a get retrieves), and the count a wait reports.
\<close>
definition example_statuses :: "ObjectStatus list \<Rightarrow> nat \<Rightarrow> ObjectStatus" where
  "example_statuses sts i = (if i < length sts then sts ! i else ObjectStatus_Other)"

definition example_buffers :: "ObjectStatus list \<Rightarrow> nat \<Rightarrow> ObjectBuffer" where
  "example_buffers sts i =
     (if example_statuses sts i = ObjectStatus_Local
      then \<lparr>data_size = 10, data = 4096, metadata_size = 0, metadata = 4106\<rparr>
      else \<lparr>data_size = - 1, data = 0, metadata_size = - 1, metadata = 0\<rparr>)"

definition example_client :: "int \<Rightarrow> Status \<Rightarrow> ObjectStatus list \<Rightarrow> int \<Rightarrow> string PlasmaClient" where
  "example_client fd s sts m =
     \<lparr>get_manager_fd = fd,
      Create = (\<lambda>oid sz md n. (s, 4096)),
      plasma_compute_object_hash = (\<lambda>oid. (s = OK, \<lambda>i. 171 + of_nat i)),
      Get = (\<lambda>oids t. (s, example_buffers sts)),
      Fetch = (\<lambda>n oids. s),
      Wait = (\<lambda>reqs k t. (s, example_statuses sts, m)),
      Transfer = (\<lambda>a p oid. s)\<rparr>"

text \<open>A notification socket, descriptor 3, on which one frame is read.\<close>
definition example_read :: "ObjectInfo \<Rightarrow> int \<Rightarrow> ObjectInfo option" where
  "example_read frame sock = (if sock = 3 then Some frame else None)"

section \<open>The second loop of wait\<close>

lemma wait_collect_done:
  "wait_collect rs n n ready_ids waiting_ids = Inr (n, ready_ids, waiting_ids)"
  by (cases rs) simp_all

lemma wait_collect_failure:
  "wait_collect rs ntr nr ready_ids waiting_ids = Inl e \<Longrightarrow> e = CheckFailed"
  by (induction rs ntr nr ready_ids waiting_ids rule: wait_collect.induct)
     (auto split: if_splits)

lemma slot_update:
  "length acc < k \<Longrightarrow>
   (map Some acc @ replicate (k - length acc) None)[length acc := Some x] =
   map Some (acc @ [x]) @ replicate (k - length (acc @ [x])) None"
proof -
  assume "length acc < k"
  then obtain d where d: "k - length acc = Suc d" 
    by (metis Suc_diff_Suc)
  then have "k - length (acc @ [x]) = d" by simp
  with d show ?thesis by (simp add: list_update_append)
qed

lemma wait_collect_cases:
  "length acc \<le> k \<Longrightarrow>
   wait_collect rs (int k) (int (length acc))
      (map Some acc @ replicate (k - length acc) None) waiting = Inl CheckFailed \<or>
   wait_collect rs (int k) (int (length acc))
      (map Some acc @ replicate (k - length acc) None) waiting =
   Inr (int (length (acc @ take (k - length acc) (ready_of rs))),
        map Some (acc @ take (k - length acc) (ready_of rs))
          @ replicate (k - length (acc @ take (k - length acc) (ready_of rs))) None,
        waiting - set (take (k - length acc) (ready_of rs)))"
proof (induction rs arbitrary: acc waiting)
  case Nil
  then show ?case by (simp add: ready_of_def)
next
  case (Cons r rs)
  show ?case
  proof (cases "length acc = k")
    case True
    then show ?thesis by simp
  next
    case False
    with Cons.prems have lt: "length acc < k" by simp
    consider (ready) "status r = ObjectStatus_Local \<or> status r = ObjectStatus_Remote"
      | (nonexistent) "status r = ObjectStatus_Nonexistent"
      | (other) "status r = ObjectStatus_Other"
      by (cases "status r") auto
    then show ?thesis
    proof cases
      case ready
      let ?acc = "acc @ [object_id r]"
      from lt have le: "length ?acc \<le> k" by simp
      have rd: "ready_of (r # rs) = object_id r # ready_of rs"
        using ready by (auto simp: ready_of_def)
      from lt obtain d where d: "k - length acc = Suc d" by (metis Suc_diff_Suc)
      then have d': "k - length ?acc = d" by simp
      have step: "wait_collect (r # rs) (int k) (int (length acc))
           (map Some acc @ replicate (k - length acc) None) waiting =
         wait_collect rs (int k) (int (length ?acc))
           (map Some ?acc @ replicate (k - length ?acc) None) (waiting - {object_id r})"
        using ready False lt slot_update [OF lt, of "object_id r"] by (auto simp: add.commute)
      have same: "Inr (int (length (?acc @ take (k - length ?acc) (ready_of rs))),
              map Some (?acc @ take (k - length ?acc) (ready_of rs))
                @ replicate (k - length (?acc @ take (k - length ?acc) (ready_of rs))) None,
              (waiting - {object_id r}) - set (take (k - length ?acc) (ready_of rs))) =
         (Inr (int (length (acc @ take (k - length acc) (ready_of (r # rs)))),
              map Some (acc @ take (k - length acc) (ready_of (r # rs)))
                @ replicate (k - length (acc @ take (k - length acc) (ready_of (r # rs)))) None,
              waiting - set (take (k - length acc) (ready_of (r # rs)))) :: failure + _)"
        unfolding rd d d' by auto
      from Cons.IH [OF le, of "waiting - {object_id r}"] show ?thesis
        unfolding step same .
    next
      case nonexistent
      have rd: "ready_of (r # rs) = ready_of rs"
        using nonexistent by (auto simp: ready_of_def)
      have step: "wait_collect (r # rs) (int k) (int (length acc))
           (map Some acc @ replicate (k - length acc) None) waiting =
         wait_collect rs (int k) (int (length acc))
           (map Some acc @ replicate (k - length acc) None) waiting"
        using nonexistent False by auto
      from Cons.IH [OF Cons.prems, of waiting] show ?thesis
        unfolding step rd .
    next
      case other
      with False show ?thesis by simp
    qed
  qed
qed

lemma wait_collect_valid:
  "\<forall>r \<in> set rs. status r \<noteq> ObjectStatus_Other \<Longrightarrow>
   wait_collect rs ntr nr ready_ids waiting_ids \<noteq> Inl e"
proof (induction rs ntr nr ready_ids waiting_ids rule: wait_collect.induct)
  case (1 ntr nr ready_ids waiting_ids)
  show ?case by simp
next
  case (2 r rs ntr nr ready_ids waiting_ids)
  from "2.prems" have r: "status r \<noteq> ObjectStatus_Other"
    and rest: "\<forall>r \<in> set rs. status r \<noteq> ObjectStatus_Other" by simp_all
  from r consider "status r = ObjectStatus_Local \<or> status r = ObjectStatus_Remote"
    | "status r = ObjectStatus_Nonexistent"
    by (cases "status r") auto
  then show ?case
  proof cases
    case 1
    with "2.IH"(1) rest show ?thesis by (cases "nr = ntr") auto
  next
    case 2
    with "2.IH"(2) rest show ?thesis by (cases "nr = ntr") auto
  qed
qed


lemma ready_of_observed_gen:
  "map object_id (filter (\<lambda>r. status r = ObjectStatus_Local \<or> status r = ObjectStatus_Remote)
      (map (\<lambda>(i, r). r\<lparr>status := statuses i\<rparr>) (enumerate n (wait_requests ids)))) =
   map snd (filter (\<lambda>(i, oid). statuses i = ObjectStatus_Local \<or> statuses i = ObjectStatus_Remote)
       (enumerate n ids))"
  by (induction ids arbitrary: n) auto

lemma ready_of_observed:
  "ready_of (observed (wait_requests ids) statuses) = ready_in_order ids statuses"
  by (simp add: ready_of_def observed_def ready_in_order_def ready_of_observed_gen)

lemma observed_requests_gen:
  "map (\<lambda>(i, r). r\<lparr>status := statuses i\<rparr>) (enumerate n (wait_requests ids)) =
   map (\<lambda>(i, oid). \<lparr>object_id = oid, type = PLASMA_QUERY_ANYWHERE, status = statuses i\<rparr>)
     (enumerate n ids)"
  by (induction ids arbitrary: n) auto

lemma observed_requests:
  "observed (wait_requests ids) statuses =
   map (\<lambda>(i, oid). \<lparr>object_id = oid, type = PLASMA_QUERY_ANYWHERE, status = statuses i\<rparr>)
     (enumerate 0 ids)"
  by (simp add: observed_def observed_requests_gen)

lemma observed_status:
  assumes "r \<in> set (observed (wait_requests ids) statuses)"
  shows "\<exists>i < length ids. status r = statuses i"
proof -
  from assms obtain i oid where mem: "(i, oid) \<in> set (enumerate 0 ids)"
    and r: "r = \<lparr>object_id = oid, type = PLASMA_QUERY_ANYWHERE, status = statuses i\<rparr>"
    unfolding observed_requests by auto
  from mem have "i < length ids" by (simp add: in_set_enumerate_eq)
  with r show ?thesis by auto
qed

lemma wait_collect_from_start:
  assumes "\<forall>r \<in> set rs. status r \<noteq> ObjectStatus_Other"
  shows "wait_collect rs (int k) 0 (PyList_New (int k)) waiting =
     Inr (int (length (take k (ready_of rs))),
          map Some (take k (ready_of rs)) @ replicate (k - length (take k (ready_of rs))) None,
          waiting - set (take k (ready_of rs)))"
  using wait_collect_cases [of "[]" k rs waiting]
    wait_collect_valid [OF assms, of "int k" 0 "PyList_New (int k)" waiting CheckFailed]
  by (simp add: PyList_New_def)

lemma wait_collect_mono:
  "wait_collect rs ntr nr ready_ids waiting_ids = Inr (nr', ready_ids', waiting_ids') \<Longrightarrow> nr \<le> nr'"
  by (induction rs ntr nr ready_ids waiting_ids rule: wait_collect.induct)
     (auto split: if_splits)

lemma PyPlasma_wait_unfold:
  assumes "get_manager_fd client \<noteq> - 1" "0 \<le> num_returns"
    "num_returns \<le> int (length ids)" "timeout \<le> 2 ^ 30"
    and "Wait client (wait_requests ids) num_returns timeout = (s, statuses, m)"
  shows "PyPlasma_wait client ids timeout num_returns =
     ([Wait_call (wait_requests ids) num_returns timeout],
      if \<not> ok s then Inl CheckFailed
      else case wait_collect (observed (wait_requests ids) statuses) (min m num_returns) 0
                  (PyList_New (min m num_returns)) (set ids) of
             Inl e \<Rightarrow> Inl e
           | Inr (num_returned, ready_ids, waiting_ids) \<Rightarrow>
               if num_returned = min m num_returns then Inr (ready_ids, waiting_ids)
               else Inl CheckFailed)"
  using assms by (simp add: PyPlasma_wait_def threshold_def Let_def)

lemma PyPlasma_wait_rejected:
  "\<not> (get_manager_fd client \<noteq> - 1 \<and> 0 \<le> num_returns \<and>
      num_returns \<le> int (length ids) \<and> timeout \<le> 2 ^ 30) \<Longrightarrow>
   \<exists>e. PyPlasma_wait client ids timeout num_returns = ([], Inl (PyErr PyExc_RuntimeError e))"
  by (auto simp: PyPlasma_wait_def threshold_def Let_def)

lemma PyPlasma_wait_outcomes:
  assumes "get_manager_fd client \<noteq> - 1" "0 \<le> num_returns"
    "num_returns \<le> int (length ids)" "timeout \<le> 2 ^ 30"
  shows "snd (PyPlasma_wait client ids timeout num_returns) = Inl CheckFailed \<or>
         (\<exists>v. snd (PyPlasma_wait client ids timeout num_returns) = Inr v)"
proof -
  obtain s statuses m where
    reply: "Wait client (wait_requests ids) num_returns timeout = (s, statuses, m)"
    by (cases "Wait client (wait_requests ids) num_returns timeout") auto
  show ?thesis
    unfolding PyPlasma_wait_unfold [OF assms reply]
    by (auto split: sum.splits dest: wait_collect_failure)
qed

lemma wait_result:
  assumes reply: "Wait client (wait_requests ids) num_returns timeout = (s, statuses, m)"
    and ret: "snd (PyPlasma_wait client ids timeout num_returns) = Inr (ready_ids, remaining_ids)"
  shows "ready_ids = map Some (take (nat (min m num_returns)) (ready_in_order ids statuses)) \<and>
         length ready_ids = nat (min m num_returns) \<and>
         remaining_ids =
           set ids - set (take (nat (min m num_returns)) (ready_in_order ids statuses))"
proof -
  let ?ready = "ready_in_order ids statuses"
  have pre: "get_manager_fd client \<noteq> - 1 \<and> 0 \<le> num_returns \<and>
      num_returns \<le> int (length ids) \<and> timeout \<le> 2 ^ 30"
  proof (rule ccontr)
    assume "\<not> ?thesis"
    from PyPlasma_wait_rejected [OF this] ret show False by auto
  qed
  then have p: "get_manager_fd client \<noteq> - 1" "0 \<le> num_returns"
    "num_returns \<le> int (length ids)" "timeout \<le> 2 ^ 30" by simp_all
  let ?w = "wait_collect (observed (wait_requests ids) statuses) (min m num_returns) 0
              (PyList_New (min m num_returns)) (set ids)"
  have unf: "snd (PyPlasma_wait client ids timeout num_returns) =
       (if \<not> ok s then Inl CheckFailed
        else case ?w of
               Inl e \<Rightarrow> Inl e
             | Inr (num_returned, ready_ids, waiting_ids) \<Rightarrow>
                 if num_returned = min m num_returns then Inr (ready_ids, waiting_ids)
                 else Inl CheckFailed)"
    using PyPlasma_wait_unfold [OF p reply] by simp
  have s: "ok s"
  proof (rule ccontr)
    assume "\<not> ok s"
    with ret unf show False by simp
  qed
  obtain nr rd wt where w: "?w = Inr (nr, rd, wt)"
  proof (cases ?w)
    case (Inl e)
    with ret unf s show ?thesis by simp
  next
    case (Inr v)
    then show ?thesis using that by (cases v) auto
  qed
  have nr: "nr = min m num_returns"
  proof (rule ccontr)
    assume "nr \<noteq> min m num_returns"
    with ret unf s w show False by simp
  qed
  have "snd (PyPlasma_wait client ids timeout num_returns) = Inr (rd, wt)"
    unfolding unf w using s nr by simp
  with ret have "Inr (ready_ids, remaining_ids) = (Inr (rd, wt) :: failure + _)"
    by (rule trans [OF sym])
  then have eq: "ready_ids = rd" "remaining_ids = wt" by blast+
  define k where "k = nat (min m num_returns)"
  from wait_collect_mono [OF w] nr have ntr: "min m num_returns = int k"
    by (simp add: k_def)
  from wait_collect_cases [of "[]" k "observed (wait_requests ids) statuses" "set ids"] w
  have res: "Inr (nr, rd, wt) =
      (Inr (int (length (take k ?ready)),
            map Some (take k ?ready) @ replicate (k - length (take k ?ready)) None,
            set ids - set (take k ?ready)) :: failure + _)"
    unfolding ntr by (simp add: PyList_New_def ready_of_observed)
  then have "nr = int (length (take k ?ready))"
    and rd: "rd = map Some (take k ?ready) @ replicate (k - length (take k ?ready)) None"
    and wt: "wt = set ids - set (take k ?ready)" by blast+
  with nr ntr have len: "length (take k ?ready) = k" by simp
  with rd have "rd = map Some (take k ?ready)" by simp
  with wt len eq show ?thesis unfolding k_def [symmetric] by simp
qed

lemma wait_zero_returns:
  assumes "get_manager_fd client \<noteq> - 1" "timeout \<le> 2 ^ 30"
    and reply: "Wait client (wait_requests ids) 0 timeout = (s, statuses, m)"
    and "ok s" "0 \<le> m"
  shows "PyPlasma_wait client ids timeout 0 =
          ([Wait_call (wait_requests ids) 0 timeout], Inr ([], set ids))"
proof -
  from \<open>0 \<le> m\<close> have ntr: "min m 0 = 0" by simp
  show ?thesis
    unfolding PyPlasma_wait_unfold [OF assms(1) order_refl _ assms(2) reply, simplified] ntr
    using \<open>ok s\<close> by (simp add: wait_collect_done PyList_New_def)
qed

lemma wait_zero_result:
  assumes ret: "snd (PyPlasma_wait client ids timeout 0) = Inr (ready_ids, remaining_ids)"
  shows "ready_ids = [] \<and> remaining_ids = set ids"
proof -
  obtain s statuses m where
    reply: "Wait client (wait_requests ids) 0 timeout = (s, statuses, m)"
    by (cases "Wait client (wait_requests ids) 0 timeout") auto
  have "nat (min m 0) = 0" by simp
  with wait_result [OF reply ret] show ?thesis by simp
qed

lemma wait_requests_type:
  "r \<in> set (wait_requests ids) \<Longrightarrow> type r = PLASMA_QUERY_ANYWHERE"
  by (induction ids) auto

lemma wait_requests_ids:
  "map object_id (wait_requests ids) = ids"
  by (induction ids) auto

lemma PyPlasma_wait_calls:
  "fst (PyPlasma_wait client ids timeout num_returns) = [] \<or>
   fst (PyPlasma_wait client ids timeout num_returns) =
     [Wait_call (wait_requests ids) num_returns timeout]"
proof (cases "get_manager_fd client \<noteq> - 1 \<and> 0 \<le> num_returns \<and>
      num_returns \<le> int (length ids) \<and> timeout \<le> 2 ^ 30")
  case True
  obtain s statuses m where
    reply: "Wait client (wait_requests ids) num_returns timeout = (s, statuses, m)"
    by (cases "Wait client (wait_requests ids) num_returns timeout") auto
  from True have "get_manager_fd client \<noteq> - 1" "0 \<le> num_returns"
    "num_returns \<le> int (length ids)" "timeout \<le> 2 ^ 30" by simp_all
  from PyPlasma_wait_unfold [OF this reply] show ?thesis by simp
next
  case False
  from PyPlasma_wait_rejected [OF this] show ?thesis by auto
qed

section \<open>wait\<close>

text \<open>
  Claim C1. Let the wait request of a call \<open>wait(ids, num_returns, timeout)\<close> observe
  \<open>statuses\<close> and report the count \<open>m\<close> of ready ids. Whenever the call returns a
  value, \<open>ready_ids\<close> is the list of the first \<open>min m num_returns\<close> ids, in input
  order, whose observed status is \<open>Local\<close> or \<open>Remote\<close>, exactly that many and no
  empty slot, and \<open>remaining_ids\<close> is the set of the input ids minus the selected ones,
  so ready ids that were not selected and \<open>Nonexistent\<close> ids stay in it. And a call
  that passes the checks of its arguments, on a client connected to a manager whose wait
  request answers as \<open>Wait_contract\<close> says (so \<open>m\<close> is the number of ready ids), does
  return that value: the first \<open>min num_returns (number of ready ids)\<close> ready ids.
\<close>
theorem PyPlasma_wait_ready_and_remaining:
  assumes reply: "Wait client (wait_requests ids) num_returns timeout = (s, statuses, m)"
  shows "(\<forall>ready_ids remaining_ids.
            snd (PyPlasma_wait client ids timeout num_returns) = Inr (ready_ids, remaining_ids) \<longrightarrow>
              ready_ids =
                map Some (take (nat (min m num_returns)) (ready_in_order ids statuses)) \<and>
              length ready_ids = nat (min m num_returns) \<and>
              remaining_ids =
                set ids - set (take (nat (min m num_returns)) (ready_in_order ids statuses))) \<and>
         (get_manager_fd client \<noteq> - 1 \<and> 0 \<le> num_returns \<and>
          num_returns \<le> int (length ids) \<and> timeout \<le> 2 ^ 30 \<and>
          Wait_contract client ids num_returns timeout \<longrightarrow>
            PyPlasma_wait client ids timeout num_returns =
              ([Wait_call (wait_requests ids) num_returns timeout],
               Inr (map Some (take (nat num_returns) (ready_in_order ids statuses)),
                    set ids - set (take (nat num_returns) (ready_in_order ids statuses)))) \<and>
            length (take (nat num_returns) (ready_in_order ids statuses)) =
              min (nat num_returns) (length (ready_in_order ids statuses)))"
proof (intro conjI allI impI)
  fix ready_ids remaining_ids
  assume "snd (PyPlasma_wait client ids timeout num_returns) = Inr (ready_ids, remaining_ids)"
  from wait_result [OF reply this]
  show "ready_ids = map Some (take (nat (min m num_returns)) (ready_in_order ids statuses))"
    and "length ready_ids = nat (min m num_returns)"
    and "remaining_ids =
           set ids - set (take (nat (min m num_returns)) (ready_in_order ids statuses))"
    by blast+
next
  let ?rs = "observed (wait_requests ids) statuses"
  let ?ready = "ready_in_order ids statuses"
  assume a: "get_manager_fd client \<noteq> - 1 \<and> 0 \<le> num_returns \<and>
          num_returns \<le> int (length ids) \<and> timeout \<le> 2 ^ 30 \<and>
          Wait_contract client ids num_returns timeout"
  then have manager: "get_manager_fd client \<noteq> - 1" and lower: "0 \<le> num_returns"
    and upper: "num_returns \<le> int (length ids)" and tmo: "timeout \<le> 2 ^ 30"
    and contract: "Wait_contract client ids num_returns timeout" by simp_all
  from contract reply have s: "ok s"
    and valid: "\<forall>i \<in> set [0..<length ids]. statuses i \<noteq> ObjectStatus_Other"
    and m: "m = int (length ?ready)"
    by (simp_all add: Wait_contract_def)
  have rs_valid: "\<forall>r \<in> set ?rs. status r \<noteq> ObjectStatus_Other"
  proof
    fix r assume "r \<in> set ?rs"
    then obtain i where "i < length ids" "status r = statuses i"
      using observed_status by blast
    with valid show "status r \<noteq> ObjectStatus_Other" by simp
  qed
  define k where "k = min (length ?ready) (nat num_returns)"
  have ntr: "min m num_returns = int k"
  proof (cases "length ?ready \<le> nat num_returns")
    case True
    then have "int (length ?ready) \<le> num_returns" using lower by linarith
    with True show ?thesis by (simp add: m k_def)
  next
    case False
    then have "num_returns \<le> int (length ?ready)" by linarith
    with False lower show ?thesis by (simp add: m k_def)
  qed
  have tk: "take k ?ready = take (nat num_returns) ?ready"
    by (simp add: k_def min_def)
  have kle: "k \<le> length ?ready"
    by (simp add: k_def)
  then have lk: "min (length ?ready) k = k"
    by simp
  have loop: "wait_collect ?rs (int k) 0 (PyList_New (int k)) (set ids) =
     Inr (int k, map Some (take k ?ready), set ids - set (take k ?ready))"
    using wait_collect_from_start [OF rs_valid, of k "set ids"]
    by (simp add: ready_of_observed lk)
  have "PyPlasma_wait client ids timeout num_returns =
     ([Wait_call (wait_requests ids) num_returns timeout],
      Inr (map Some (take k ?ready), set ids - set (take k ?ready)))"
    using manager lower upper tmo s reply
    by (simp add: PyPlasma_wait_def threshold_def Let_def ntr loop)
  then show "PyPlasma_wait client ids timeout num_returns =
              ([Wait_call (wait_requests ids) num_returns timeout],
               Inr (map Some (take (nat num_returns) (ready_in_order ids statuses)),
                    set ids - set (take (nat num_returns) (ready_in_order ids statuses))))"
    by (simp add: tk)
  show "length (take (nat num_returns) (ready_in_order ids statuses)) =
              min (nat num_returns) (length (ready_in_order ids statuses))"
    by simp
qed

theorem PyPlasma_wait_ready_and_remaining_witness:
  "PyPlasma_wait
     (example_client 5 OK [ObjectStatus_Nonexistent, ObjectStatus_Local, ObjectStatus_Nonexistent] 1)
     [''A'', ''B'', ''C''] 100 2 =
   ([Wait_call (wait_requests [''A'', ''B'', ''C'']) 2 100], Inr ([Some ''B''], {''A'', ''C''}))"
  using PyPlasma_wait_ready_and_remaining
    [of "example_client 5 OK [ObjectStatus_Nonexistent, ObjectStatus_Local, ObjectStatus_Nonexistent] 1"
        "[''A'', ''B'', ''C'']" 2 100 OK
        "example_statuses [ObjectStatus_Nonexistent, ObjectStatus_Local, ObjectStatus_Nonexistent]" 1,
     THEN conjunct2]
  by (simp add: example_client_def example_statuses_def Wait_contract_def ready_in_order_def ok_def
        upt_rec [of 0] upt_rec [of 1] upt_rec [of 2] insert_commute)

text \<open>
  Claim C2, amended. \<open>wait\<close> first checks the manager connection: without one it raises
  the not-connected error whatever \<open>num_returns\<close> and \<open>timeout\<close> are. On a client
  connected to a manager it raises one of the three errors about its arguments, with no
  request issued to the store, whenever \<open>num_returns < 0\<close>, \<open>num_returns > len(ids)\<close>
  or \<open>timeout > 2^30\<close>. A call with \<open>0 \<le> num_returns \<le> len(ids)\<close> and
  \<open>timeout \<le> 2^30\<close> never raises one of the three.
\<close>
theorem PyPlasma_wait_usage_errors:
  "(get_manager_fd client = - 1 \<longrightarrow>
      PyPlasma_wait client ids timeout num_returns = ([], Inl not_connected)) \<and>
   (get_manager_fd client \<noteq> - 1 \<and>
      (num_returns < 0 \<or> int (length ids) < num_returns \<or> 2 ^ 30 < timeout) \<longrightarrow>
      fst (PyPlasma_wait client ids timeout num_returns) = [] \<and>
      wait_usage_error (snd (PyPlasma_wait client ids timeout num_returns))) \<and>
   (0 \<le> num_returns \<and> num_returns \<le> int (length ids) \<and> timeout \<le> 2 ^ 30 \<longrightarrow>
      \<not> wait_usage_error (snd (PyPlasma_wait client ids timeout num_returns)))"
proof (intro conjI impI)
  assume "get_manager_fd client = - 1"
  then show "PyPlasma_wait client ids timeout num_returns = ([], Inl not_connected)"
    by (simp add: PyPlasma_wait_def not_connected_def)
next
  assume bad: "get_manager_fd client \<noteq> - 1 \<and>
      (num_returns < 0 \<or> int (length ids) < num_returns \<or> 2 ^ 30 < timeout)"
  then show "fst (PyPlasma_wait client ids timeout num_returns) = []"
    by (auto simp: PyPlasma_wait_def threshold_def Let_def)
  from bad show "wait_usage_error (snd (PyPlasma_wait client ids timeout num_returns))"
    by (auto simp: PyPlasma_wait_def threshold_def Let_def wait_usage_error_def)
next
  assume good: "0 \<le> num_returns \<and> num_returns \<le> int (length ids) \<and> timeout \<le> 2 ^ 30"
  show "\<not> wait_usage_error (snd (PyPlasma_wait client ids timeout num_returns))"
  proof (cases "get_manager_fd client = - 1")
    case True
    then show ?thesis
      by (simp add: PyPlasma_wait_def wait_usage_error_def)
  next
    case False
    with good PyPlasma_wait_outcomes [of client num_returns ids timeout]
    show ?thesis by (auto simp: wait_usage_error_def)
  qed
qed

text \<open>
  The claim as stated fails on a client without a manager connection: with
  \<open>num_returns = -1\<close> the error raised is the not-connected one, none of the three. It
  is the error the same client raises for \<open>num_returns = 0\<close>, where the arguments are
  valid, so it says nothing about the arguments.
\<close>
theorem PyPlasma_wait_no_manager_counterexample:
  "PyPlasma_wait (example_client (- 1) OK [] 0) [] 0 (- 1) =
     ([], Inl (PyErr PyExc_RuntimeError ''Not connected to the plasma manager'')) \<and>
   PyPlasma_wait (example_client (- 1) OK [] 0) [] 0 0 =
     ([], Inl (PyErr PyExc_RuntimeError ''Not connected to the plasma manager'')) \<and>
   \<not> wait_usage_error (snd (PyPlasma_wait (example_client (- 1) OK [] 0) [] 0 (- 1)))"
  by (simp add: PyPlasma_wait_def example_client_def wait_usage_error_def)

theorem PyPlasma_wait_usage_errors_witness:
  "PyPlasma_wait (example_client (- 1) OK [] 0) [''A''] 0 2 = ([], Inl not_connected) \<and>
   fst (PyPlasma_wait (example_client 5 OK [] 0) [''A''] 0 2) = [] \<and>
   wait_usage_error (snd (PyPlasma_wait (example_client 5 OK [] 0) [''A''] 0 2)) \<and>
   \<not> wait_usage_error (snd (PyPlasma_wait (example_client 5 OK [ObjectStatus_Local] 1) [''A''] 0 1))"
  using PyPlasma_wait_usage_errors [of "example_client (- 1) OK [] 0" "[''A'']" 0 2]
    PyPlasma_wait_usage_errors [of "example_client 5 OK [] 0" "[''A'']" 0 2]
    PyPlasma_wait_usage_errors [of "example_client 5 OK [ObjectStatus_Local] 1" "[''A'']" 0 1]
  by (simp add: example_client_def)

text \<open>
  Claim C8. A call \<open>wait(ids, 0, timeout)\<close> that returns a value returns an empty
  \<open>ready_ids\<close> and, as \<open>remaining_ids\<close>, the set of all input ids, whatever statuses
  the wait observed; and it does return that value on a client connected to a manager,
  with \<open>timeout \<le> 2^30\<close>, when the wait request succeeds and reports a count that is
  not negative.
\<close>
theorem PyPlasma_wait_zero:
  "(\<forall>ready_ids remaining_ids.
      snd (PyPlasma_wait client ids timeout 0) = Inr (ready_ids, remaining_ids) \<longrightarrow>
      ready_ids = [] \<and> remaining_ids = set ids) \<and>
   (get_manager_fd client \<noteq> - 1 \<and> timeout \<le> 2 ^ 30 \<and>
    ok (fst (Wait client (wait_requests ids) 0 timeout)) \<and>
    0 \<le> snd (snd (Wait client (wait_requests ids) 0 timeout)) \<longrightarrow>
      PyPlasma_wait client ids timeout 0 =
        ([Wait_call (wait_requests ids) 0 timeout], Inr ([], set ids)))"
proof (intro conjI allI impI)
  fix ready_ids remaining_ids
  assume "snd (PyPlasma_wait client ids timeout 0) = Inr (ready_ids, remaining_ids)"
  then show "ready_ids = []" and "remaining_ids = set ids"
    using wait_zero_result [of client ids timeout ready_ids remaining_ids] by blast+
next
  assume a: "get_manager_fd client \<noteq> - 1 \<and> timeout \<le> 2 ^ 30 \<and>
    ok (fst (Wait client (wait_requests ids) 0 timeout)) \<and>
    0 \<le> snd (snd (Wait client (wait_requests ids) 0 timeout))"
  obtain s statuses m where
    reply: "Wait client (wait_requests ids) 0 timeout = (s, statuses, m)"
    by (cases "Wait client (wait_requests ids) 0 timeout") auto
  with a show "PyPlasma_wait client ids timeout 0 =
        ([Wait_call (wait_requests ids) 0 timeout], Inr ([], set ids))"
    by (intro wait_zero_returns [OF _ _ reply]) simp_all
qed

theorem PyPlasma_wait_zero_witness:
  "PyPlasma_wait (example_client 5 OK [ObjectStatus_Local, ObjectStatus_Remote] 2)
     [''A'', ''B''] 100 0 =
   ([Wait_call (wait_requests [''A'', ''B'']) 0 100], Inr ([], {''A'', ''B''}))"
  using PyPlasma_wait_zero
    [of "example_client 5 OK [ObjectStatus_Local, ObjectStatus_Remote] 2" "[''A'', ''B'']" 100,
     THEN conjunct2]
  by (simp add: example_client_def ok_def)

text \<open>
  Claim C9. Every request \<open>wait\<close> hands to the store is built by its first loop: one
  request per input id, in order, each with the query type \<open>PLASMA_QUERY_ANYWHERE\<close>;
  no argument of \<open>wait\<close> selects \<open>PLASMA_QUERY_LOCAL\<close>.
\<close>
theorem PyPlasma_wait_queries_anywhere:
  "\<forall>call \<in> set (fst (PyPlasma_wait client ids timeout num_returns)).
     \<exists>object_requests.
       call = Wait_call object_requests num_returns timeout \<and>
       map object_id object_requests = ids \<and>
       (\<forall>r \<in> set object_requests. type r = PLASMA_QUERY_ANYWHERE \<and> type r \<noteq> PLASMA_QUERY_LOCAL)"
proof
  fix call
  assume "call \<in> set (fst (PyPlasma_wait client ids timeout num_returns))"
  with PyPlasma_wait_calls [of client ids timeout num_returns]
  have call: "call = Wait_call (wait_requests ids) num_returns timeout" by auto
  have "\<forall>r \<in> set (wait_requests ids).
          type r = PLASMA_QUERY_ANYWHERE \<and> type r \<noteq> PLASMA_QUERY_LOCAL"
    by (simp add: wait_requests_type)
  with call wait_requests_ids [of ids]
  show "\<exists>object_requests.
       call = Wait_call object_requests num_returns timeout \<and>
       map object_id object_requests = ids \<and>
       (\<forall>r \<in> set object_requests. type r = PLASMA_QUERY_ANYWHERE \<and> type r \<noteq> PLASMA_QUERY_LOCAL)"
    by blast
qed

theorem PyPlasma_wait_queries_anywhere_witness:
  "fst (PyPlasma_wait (example_client 5 OK [ObjectStatus_Local, ObjectStatus_Nonexistent] 1)
          [''A'', ''B''] 100 1) =
     [Wait_call
        [\<lparr>object_id = ''A'', type = PLASMA_QUERY_ANYWHERE, status = ObjectStatus_Other\<rparr>,
         \<lparr>object_id = ''B'', type = PLASMA_QUERY_ANYWHERE, status = ObjectStatus_Other\<rparr>]
        1 100]"
  using PyPlasma_wait_queries_anywhere
    [of "example_client 5 OK [ObjectStatus_Local, ObjectStatus_Nonexistent] 1" "[''A'', ''B'']" 100 1]
  by (simp add: PyPlasma_wait_def example_client_def threshold_def Let_def ok_def)

section \<open>get\<close>

text \<open>
  Claim C3, amended. A call \<open>get(ids, timeout)\<close> issues one get request for the ids, in
  input order, and never raises a Python error. When the request succeeds the result is a
  list of exactly \<open>len(ids)\<close> entries, entry \<open>i\<close> built from object buffer \<open>i\<close>,
  the buffer of input id \<open>i\<close>: \<open>None\<close> when its data size is \<open>-1\<close> (not
  retrieved), otherwise the pair of read-only views of its data and metadata, with the
  buffer's addresses and sizes. When the request fails, line 155 ends the process and
  nothing is returned.
\<close>
theorem PyPlasma_get_entries:
  "(\<not> ok (fst (Get client ids timeout_ms)) \<longrightarrow>
      PyPlasma_get client ids timeout_ms = ([Get_call ids timeout_ms], Inl CheckFailed)) \<and>
   (ok (fst (Get client ids timeout_ms)) \<longrightarrow>
    (\<exists>returns.
     PyPlasma_get client ids timeout_ms = ([Get_call ids timeout_ms], Inr returns) \<and>
     length returns = length ids \<and>
     (\<forall>i \<in> set [0..<length ids].
        (data_size (snd (Get client ids timeout_ms) i) = - 1 \<longrightarrow> returns ! i = None) \<and>
        (data_size (snd (Get client ids timeout_ms) i) \<noteq> - 1 \<longrightarrow>
           returns ! i =
             Some (\<lparr>view_mem = data (snd (Get client ids timeout_ms) i),
                     view_size = data_size (snd (Get client ids timeout_ms) i),
                     view_access = PyBUF_READ\<rparr>,
                   \<lparr>view_mem = metadata (snd (Get client ids timeout_ms) i),
                     view_size = metadata_size (snd (Get client ids timeout_ms) i),
                     view_access = PyBUF_READ\<rparr>))))) \<and>
   (\<forall>exc msg. snd (PyPlasma_get client ids timeout_ms) \<noteq> Inl (PyErr exc msg))"
proof -
  obtain s object_buffers where reply: "Get client ids timeout_ms = (s, object_buffers)"
    by (cases "Get client ids timeout_ms") auto
  let ?returns = "map (\<lambda>i. get_entry (object_buffers i)) [0..<length ids]"
  have unf: "PyPlasma_get client ids timeout_ms =
      ([Get_call ids timeout_ms], if \<not> ok s then Inl CheckFailed else Inr ?returns)"
    using reply by (simp add: PyPlasma_get_def)
  have len: "length ?returns = length ids" by simp
  have entries: "\<forall>i \<in> set [0..<length ids].
        (data_size (object_buffers i) = - 1 \<longrightarrow> ?returns ! i = None) \<and>
        (data_size (object_buffers i) \<noteq> - 1 \<longrightarrow>
           ?returns ! i =
             Some (\<lparr>view_mem = data (object_buffers i),
                     view_size = data_size (object_buffers i),
                     view_access = PyBUF_READ\<rparr>,
                   \<lparr>view_mem = metadata (object_buffers i),
                     view_size = metadata_size (object_buffers i),
                     view_access = PyBUF_READ\<rparr>))"
    by (simp add: get_entry_def)
  show ?thesis
  proof (intro conjI impI)
    assume "\<not> ok (fst (Get client ids timeout_ms))"
    then show "PyPlasma_get client ids timeout_ms = ([Get_call ids timeout_ms], Inl CheckFailed)"
      unfolding unf reply fst_conv by simp
  next
    assume "ok (fst (Get client ids timeout_ms))"
    then have "PyPlasma_get client ids timeout_ms = ([Get_call ids timeout_ms], Inr ?returns)"
      unfolding unf reply fst_conv by simp
    with len entries show "\<exists>returns.
     PyPlasma_get client ids timeout_ms = ([Get_call ids timeout_ms], Inr returns) \<and>
     length returns = length ids \<and>
     (\<forall>i \<in> set [0..<length ids].
        (data_size (snd (Get client ids timeout_ms) i) = - 1 \<longrightarrow> returns ! i = None) \<and>
        (data_size (snd (Get client ids timeout_ms) i) \<noteq> - 1 \<longrightarrow>
           returns ! i =
             Some (\<lparr>view_mem = data (snd (Get client ids timeout_ms) i),
                     view_size = data_size (snd (Get client ids timeout_ms) i),
                     view_access = PyBUF_READ\<rparr>,
                   \<lparr>view_mem = metadata (snd (Get client ids timeout_ms) i),
                     view_size = metadata_size (snd (Get client ids timeout_ms) i),
                     view_access = PyBUF_READ\<rparr>)))"
      unfolding reply snd_conv by blast
  next
    show "\<forall>exc msg. snd (PyPlasma_get client ids timeout_ms) \<noteq> Inl (PyErr exc msg)"
      unfolding unf by simp
  qed
qed

text \<open>
  The claim as stated, that every call gives a list of \<open>len(ids)\<close> entries, fails for a
  call whose get request fails: line 155 ends the process, and no list is returned.
\<close>
theorem PyPlasma_get_failed_request_counterexample:
  "\<not> ok (fst (Get (example_client 5 OtherFailure [ObjectStatus_Local, ObjectStatus_Local] 2)
                 [''A'', ''B''] 0)) \<and>
   PyPlasma_get (example_client 5 OtherFailure [ObjectStatus_Local, ObjectStatus_Local] 2)
     [''A'', ''B''] 0 =
   ([Get_call [''A'', ''B''] 0], Inl CheckFailed)"
  by (simp add: PyPlasma_get_def example_client_def ok_def)

theorem PyPlasma_get_entries_witness:
  "PyPlasma_get (example_client 5 OK [ObjectStatus_Nonexistent, ObjectStatus_Local] 1)
     [''A'', ''B''] 0 =
   ([Get_call [''A'', ''B''] 0],
    Inr [None,
         Some (\<lparr>view_mem = 4096, view_size = 10, view_access = PyBUF_READ\<rparr>,
               \<lparr>view_mem = 4106, view_size = 0, view_access = PyBUF_READ\<rparr>)]) \<and>
   PyPlasma_get (example_client 5 PlasmaStoreFull [ObjectStatus_Local] 1) [''C''] 7 =
   ([Get_call [''C''] 7], Inl CheckFailed)"
proof -
  have first: "PyPlasma_get (example_client 5 OK [ObjectStatus_Nonexistent, ObjectStatus_Local] 1)
     [''A'', ''B''] 0 =
   ([Get_call [''A'', ''B''] 0],
    Inr [None,
         Some (\<lparr>view_mem = 4096, view_size = 10, view_access = PyBUF_READ\<rparr>,
               \<lparr>view_mem = 4106, view_size = 0, view_access = PyBUF_READ\<rparr>)])"
    using PyPlasma_get_entries
      [of "example_client 5 OK [ObjectStatus_Nonexistent, ObjectStatus_Local] 1" "[''A'', ''B'']" 0,
       THEN conjunct2, THEN conjunct1]
    by (simp add: PyPlasma_get_def example_client_def ok_def get_entry_def example_buffers_def
          example_statuses_def upt_rec [of 0] upt_rec [of 1])
  have second: "PyPlasma_get (example_client 5 PlasmaStoreFull [ObjectStatus_Local] 1) [''C''] 7 =
   ([Get_call [''C''] 7], Inl CheckFailed)"
    using PyPlasma_get_entries
      [of "example_client 5 PlasmaStoreFull [ObjectStatus_Local] 1" "[''C'']" 7, THEN conjunct1]
    by (simp add: example_client_def ok_def)
  from first second show ?thesis by (rule conjI)
qed

section \<open>create\<close>

text \<open>
  Claim C4, amended. With a bytearray as metadata, \<open>create\<close> raises
  \<open>PlasmaObjectExistsError\<close> when the store answers that the object exists and
  \<open>PlasmaOutOfMemoryError\<close> when it answers that it is full: two distinct exception
  types, neither of them \<open>RuntimeError\<close> or \<open>TypeError\<close>. When the store answers with
  success it returns a writable view of exactly \<open>size\<close> bytes at the address the store
  gave.
\<close>
theorem PyPlasma_create_outcomes:
  assumes "PyByteArray_Check mdata"
    and "Create client oid sz (PyByteArray_AsString mdata) (PyByteArray_Size mdata) = (s, dat)"
  shows "(s = PlasmaObjectExists \<longrightarrow>
            snd (PyPlasma_create client oid sz mdata) =
              Inl (PyErr PlasmaObjectExistsError
                     ''An object with this ID already exists in the plasma store.'')) \<and>
         (s = PlasmaStoreFull \<longrightarrow>
            snd (PyPlasma_create client oid sz mdata) =
              Inl (PyErr PlasmaOutOfMemoryError
                     ''The plasma store ran out of memory and could not create this object.'')) \<and>
         PlasmaObjectExistsError \<noteq> PlasmaOutOfMemoryError \<and>
         PlasmaObjectExistsError \<noteq> PyExc_RuntimeError \<and>
         PlasmaObjectExistsError \<noteq> PyExc_TypeError \<and>
         PlasmaOutOfMemoryError \<noteq> PyExc_RuntimeError \<and>
         PlasmaOutOfMemoryError \<noteq> PyExc_TypeError \<and>
         (s = OK \<longrightarrow>
            snd (PyPlasma_create client oid sz mdata) =
              Inr \<lparr>view_mem = dat, view_size = sz, view_access = PyBUF_WRITE\<rparr>)"
  using assms
  by (simp add: PyPlasma_create_def IsPlasmaObjectExists_def IsPlasmaStoreFull_def ok_def)

text \<open>
  The claim as stated, that a buffer is returned whenever neither condition occurs, fails
  in two ways. For a metadata argument that is not a bytearray the store is not asked,
  so neither condition occurs, and a \<open>TypeError\<close> is raised. For a store answer that is
  neither of the two and not a success, line 88 ends the process and no buffer is
  returned.
\<close>
theorem PyPlasma_create_no_buffer_counterexample:
  "PyPlasma_create (example_client 5 OK [] 0) ''A'' 10 (PyBytes []) =
     ([], Inl (PyErr PyExc_TypeError ''metadata must be a bytearray'')) \<and>
   PyByteArray_Check (PyByteArray []) \<and>
   \<not> IsPlasmaObjectExists (fst (Create (example_client 5 OtherFailure [] 0) ''A'' 10 [] 0)) \<and>
   \<not> IsPlasmaStoreFull (fst (Create (example_client 5 OtherFailure [] 0) ''A'' 10 [] 0)) \<and>
   PyPlasma_create (example_client 5 OtherFailure [] 0) ''A'' 10 (PyByteArray []) =
     ([Create_call ''A'' 10 [] 0], Inl CheckFailed)"
  by (simp add: PyPlasma_create_def example_client_def IsPlasmaObjectExists_def
        IsPlasmaStoreFull_def ok_def)

theorem PyPlasma_create_outcomes_witness:
  "snd (PyPlasma_create (example_client 5 PlasmaObjectExists [] 0) ''A'' 10 (PyByteArray [])) =
     Inl (PyErr PlasmaObjectExistsError
            ''An object with this ID already exists in the plasma store.'') \<and>
   snd (PyPlasma_create (example_client 5 PlasmaStoreFull [] 0) ''A'' 10 (PyByteArray [])) =
     Inl (PyErr PlasmaOutOfMemoryError
            ''The plasma store ran out of memory and could not create this object.'') \<and>
   snd (PyPlasma_create (example_client 5 OK [] 0) ''A'' 10 (PyByteArray [])) =
     Inr \<lparr>view_mem = 4096, view_size = 10, view_access = PyBUF_WRITE\<rparr>"
  using PyPlasma_create_outcomes
      [of "PyByteArray []" "example_client 5 PlasmaObjectExists [] 0" "''A''" 10
          PlasmaObjectExists 4096]
    PyPlasma_create_outcomes
      [of "PyByteArray []" "example_client 5 PlasmaStoreFull [] 0" "''A''" 10
          PlasmaStoreFull 4096]
    PyPlasma_create_outcomes
      [of "PyByteArray []" "example_client 5 OK [] 0" "''A''" 10 OK 4096]
  by (simp add: example_client_def)

text \<open>
  Claim C10. \<open>create\<close> answers a metadata argument that is not a bytearray with a
  \<open>TypeError\<close>, and issues no request to the store, so no object is created.
\<close>
theorem PyPlasma_create_metadata_type:
  "\<not> PyByteArray_Check mdata \<Longrightarrow>
   PyPlasma_create client oid sz mdata =
     ([], Inl (PyErr PyExc_TypeError ''metadata must be a bytearray''))"
  by (simp add: PyPlasma_create_def)

theorem PyPlasma_create_metadata_type_witness:
  "\<not> PyByteArray_Check (PyBytes [1, 2]) \<and>
   PyPlasma_create (example_client 5 OK [] 0) ''A'' 10 (PyBytes [1, 2]) =
     ([], Inl (PyErr PyExc_TypeError ''metadata must be a bytearray''))"
  using PyPlasma_create_metadata_type [of "PyBytes [1, 2]" "example_client 5 OK [] 0" "''A''" 10]
  by simp

section \<open>receive_notification\<close>

text \<open>
  Claim C5, amended. A frame that was read is decoded to the triple of its object id and
  two sizes: \<open>-1\<close> and \<open>-1\<close> for a deletion, and for any other frame its
  \<open>data_size\<close> and \<open>metadata_size\<close> fields as they are, so not negative exactly when the
  frame's fields are not negative.
\<close>
theorem PyPlasma_receive_notification_decodes:
  assumes "read_message_async plasma_sock = Some object_info"
  shows "(info_is_deletion object_info \<longrightarrow>
            PyPlasma_receive_notification read_message_async plasma_sock =
              Inr (info_object_id object_info, - 1, - 1)) \<and>
         (\<not> info_is_deletion object_info \<longrightarrow>
            PyPlasma_receive_notification read_message_async plasma_sock =
              Inr (info_object_id object_info, info_data_size object_info,
                   info_metadata_size object_info))"
  using assms by (simp add: PyPlasma_receive_notification_def)

text \<open>
  The claim as stated, that the sizes of a frame that is not a deletion come out not
  negative, fails for such a frame with \<open>data_size = -5\<close>: the binding does not check
  the sizes and returns \<open>-5\<close>.
\<close>
theorem PyPlasma_receive_notification_negative_counterexample:
  "example_read \<lparr>info_object_id = [1, 2], info_data_size = - 5, info_metadata_size = 0,
                  info_is_deletion = False\<rparr> 3 =
     Some \<lparr>info_object_id = [1, 2], info_data_size = - 5, info_metadata_size = 0,
            info_is_deletion = False\<rparr> \<and>
   PyPlasma_receive_notification
     (example_read \<lparr>info_object_id = [1, 2], info_data_size = - 5, info_metadata_size = 0,
                     info_is_deletion = False\<rparr>) 3 =
     Inr ([1, 2], - 5, 0) \<and>
   \<not> (0::int) \<le> - 5"
  by (simp add: PyPlasma_receive_notification_def example_read_def)

theorem PyPlasma_receive_notification_decodes_witness:
  "PyPlasma_receive_notification
     (example_read \<lparr>info_object_id = [1, 2], info_data_size = 5, info_metadata_size = 0,
                     info_is_deletion = False\<rparr>) 3 =
     Inr ([1, 2], 5, 0) \<and>
   PyPlasma_receive_notification
     (example_read \<lparr>info_object_id = [1, 2], info_data_size = 5, info_metadata_size = 0,
                     info_is_deletion = True\<rparr>) 3 =
     Inr ([1, 2], - 1, - 1)"
  using PyPlasma_receive_notification_decodes
      [of "example_read \<lparr>info_object_id = [1, 2], info_data_size = 5, info_metadata_size = 0,
                           info_is_deletion = False\<rparr>" 3
          "\<lparr>info_object_id = [1, 2], info_data_size = 5, info_metadata_size = 0,
            info_is_deletion = False\<rparr>"]
    PyPlasma_receive_notification_decodes
      [of "example_read \<lparr>info_object_id = [1, 2], info_data_size = 5, info_metadata_size = 0,
                           info_is_deletion = True\<rparr>" 3
          "\<lparr>info_object_id = [1, 2], info_data_size = 5, info_metadata_size = 0,
            info_is_deletion = True\<rparr>"]
  by (simp add: example_read_def)

section \<open>fetch, transfer and hash\<close>

text \<open>
  Claim C6. Without a manager connection (descriptor \<open>-1\<close>) \<open>fetch\<close> and \<open>transfer\<close>
  raise the not-connected error and issue no request; with a manager connection neither
  raises it, and each issues its request.
\<close>
theorem PyPlasma_fetch_transfer_need_manager:
  "(get_manager_fd client = - 1 \<longrightarrow>
      PyPlasma_fetch client ids = ([], Inl not_connected) \<and>
      PyPlasma_transfer client oid addr port = ([], Inl not_connected)) \<and>
   (get_manager_fd client \<noteq> - 1 \<longrightarrow>
      snd (PyPlasma_fetch client ids) \<noteq> Inl not_connected \<and>
      snd (PyPlasma_transfer client oid addr port) \<noteq> Inl not_connected \<and>
      fst (PyPlasma_fetch client ids) = [Fetch_call (int (length ids)) ids] \<and>
      fst (PyPlasma_transfer client oid addr port) = [Transfer_call addr port oid])"
  by (simp add: PyPlasma_fetch_def PyPlasma_transfer_def not_connected_def Let_def)

theorem PyPlasma_fetch_transfer_need_manager_witness:
  "PyPlasma_fetch (example_client (- 1) OK [] 0) [''A''] = ([], Inl not_connected) \<and>
   PyPlasma_transfer (example_client (- 1) OK [] 0) ''A'' ''127.0.0.1'' 4000 =
     ([], Inl not_connected) \<and>
   PyPlasma_fetch (example_client 5 OK [] 0) [''A''] = ([Fetch_call 1 [''A'']], Inr ()) \<and>
   PyPlasma_transfer (example_client 5 OK [] 0) ''A'' ''127.0.0.1'' 4000 =
     ([Transfer_call ''127.0.0.1'' 4000 ''A''], Inr ())"
  using PyPlasma_fetch_transfer_need_manager
      [of "example_client (- 1) OK [] 0" "[''A'']" "''A''" "''127.0.0.1''" 4000]
    PyPlasma_fetch_transfer_need_manager
      [of "example_client 5 OK [] 0" "[''A'']" "''A''" "''127.0.0.1''" 4000]
  by (simp add: example_client_def PyPlasma_fetch_def PyPlasma_transfer_def ok_def Let_def)

text \<open>
  Claim C7. \<open>hash(id)\<close> asks for the object's hash once. When the hash could be
  computed it returns the digest: the \<open>kDigestSize\<close> bytes that
  \<open>plasma_compute_object_hash\<close> wrote into the digest array, in order and exactly that
  many. When it could not, it returns \<open>None\<close>. It never ends with an error.
\<close>
theorem PyPlasma_hash_digest_or_none:
  "PyPlasma_hash kDigestSize client oid =
     ([Hash_call oid],
      if fst (plasma_compute_object_hash client oid)
      then Inr (Some (map (snd (plasma_compute_object_hash client oid)) [0..<kDigestSize]))
      else Inr None) \<and>
   length (map (snd (plasma_compute_object_hash client oid)) [0..<kDigestSize]) = kDigestSize \<and>
   (\<forall>e. snd (PyPlasma_hash kDigestSize client oid) \<noteq> Inl e)"
  by (cases "plasma_compute_object_hash client oid") (simp add: PyPlasma_hash_def)

theorem PyPlasma_hash_digest_or_none_witness:
  "PyPlasma_hash 8 (example_client 5 OK [] 0) ''A'' =
     ([Hash_call ''A''], Inr (Some [171, 172, 173, 174, 175, 176, 177, 178])) \<and>
   PyPlasma_hash 8 (example_client 5 OtherFailure [] 0) ''A'' = ([Hash_call ''A''], Inr None)"
  using PyPlasma_hash_digest_or_none [of 8 "example_client 5 OK [] 0" "''A''"]
    PyPlasma_hash_digest_or_none [of 8 "example_client 5 OtherFailure [] 0" "''A''"]
  by (simp add: example_client_def upt_conv_Cons)

end
